theory Spec2Isabelle
  imports Main "HOL-Library.Sublist"
begin

section \<open>The Telegram relay bot: data model\<close>

text \<open>
  The repository has two entry points that share two handlers: \<^verbatim>\<open>02_main.py\<close>
  (long polling) and \<^verbatim>\<open>api/webhook.py\<close> (one HTTP request per call of
  \<^verbatim>\<open>handler\<close>). Both keep a module-level dictionary \<^verbatim>\<open>user_chats\<close> from the
  Telegram user id to a chat-session object of the Gemini client.

  Modelling decisions:
  \<^item> Python strings are \<open>string\<close>; the fixed Spanish messages are written as their
    UTF-8 bytes. Concatenation and the substring test \<^verbatim>\<open>in\<close> agree on UTF-8 bytes
    and on code points.
  \<^item> An \<open>exn\<close> is an exception of class \<^verbatim>\<open>Exception\<close>, given by its text
    \<^verbatim>\<open>str(e)\<close>: what \<^verbatim>\<open>except Exception\<close> catches. A raise that is only a
    \<^verbatim>\<open>BaseException\<close> (a cancelled task, a keyboard interrupt) is not caught by the
    handlers; the model has it where the reply with the model's text is awaited
    (\<open>Interrupted\<close>).
  \<^item> The dictionary stores references. A session object lives in a store
    \<open>sessions\<close> under a handle; \<open>next_handle\<close> is the first unused handle, so a
    new object never aliases an old one.
  \<^item> The Gemini client and the Telegram library are outside the repository. What the
    handlers ask of them is a parameter (\<open>env\<close>): whether \<^verbatim>\<open>start_chat\<close> returns or
    raises, what \<^verbatim>\<open>send_message\<close> answers on a session and how it leaves the session
    object, how a request body decodes, and whether the platform takes the model's
    text as a message.
  \<^item> Telegram takes a message text of 1 to 4096 characters. The fixed messages, also
    with an enum name or a first name inserted, are within that, and
    \<^verbatim>\<open>reply_text\<close> on them appends to the list of replies sent. The text of the model
    response is of any length: its reply goes through \<open>telegram_delivery\<close>. A network
    failure of the transport is not modelled.
  \<^item> \<^verbatim>\<open>logger\<close> and \<^verbatim>\<open>print\<close> calls only write to the process log, which the
    model does not carry.
\<close>

type_synonym exn = string

record user =
  user_id :: int
  first_name :: string

text \<open>
  An update that carries a message (\<^verbatim>\<open>update.message\<close> and
  \<^verbatim>\<open>update.effective_user\<close> are set), as the dispatcher classifies it: a command
  with its name, a text message that is not a command, or anything else.
\<close>

datatype update_kind = Command string | TextMessage | Other

record update =
  kind :: update_kind
  effective_user :: user
  message_text :: string

text \<open>
  What the platform delivers. An edited message is routed by the same two filters,
  but \<^verbatim>\<open>update.message\<close> is \<^verbatim>\<open>None\<close> on it (\<open>WithoutMessage\<close>; the record then
  describes the edited message).
\<close>

datatype inbound = WithMessage update | WithoutMessage update

text \<open>
  The model response, as far as the handlers probe it. \<^verbatim>\<open>response.text\<close> is a
  property and may raise. The first candidate either has no \<^verbatim>\<open>finish_reason\<close>
  attribute (\<^verbatim>\<open>hasattr\<close> is false), or has an enum member there, given by its
  \<^verbatim>\<open>.name\<close>, or has a value without \<^verbatim>\<open>.name\<close>, and line 77 raises.
  \<open>safety_ratings = None\<close> stands for a candidate without that attribute; a rating's
  category is given by its name.
\<close>

record rating =
  blocked :: bool
  category :: string

datatype reason_attr = NoAttribute | EnumMember string | NoName exn

record candidate =
  finish_reason_attr :: reason_attr
  safety_ratings :: "rating list option"

text \<open>The name of the finish reason, where the candidate has one.\<close>

definition finish_reason :: "candidate \<Rightarrow> string option" where
  "finish_reason c =
     (case finish_reason_attr c of
        EnumMember name \<Rightarrow> Some name
      | NoAttribute \<Rightarrow> None
      | NoName e \<Rightarrow> None)"

record response =
  response_text :: "exn + string"
  candidates :: "candidate list"

text \<open>
  What becomes of \<^verbatim>\<open>reply_text(response.text)\<close>: the platform takes the text, or the
  call raises an exception (Telegram rejects the text: empty, or over 4096
  characters), or the awaiting task is interrupted by a raise that is no
  \<^verbatim>\<open>Exception\<close>.
\<close>

datatype delivery = Delivered | Rejected exn | Interrupted exn

record 'sess env =
  TELEGRAM_BOT_TOKEN :: "string option"
  start_chat :: "exn + 'sess"
  send_message :: "'sess \<Rightarrow> string \<Rightarrow> (exn + response) \<times> 'sess"
  de_json :: "string \<Rightarrow> exn + inbound"
  telegram_delivery :: "string \<Rightarrow> delivery"

record 'sess state =
  user_chats :: "int \<rightharpoonup> nat"
  sessions :: "nat \<Rightarrow> 'sess"
  next_handle :: nat
  outbox :: "(int \<times> string) list"

datatype outcome = Returned | Raised exn

text \<open>
  How the body of a \<^verbatim>\<open>try\<close> block ends: it runs through, it raises an exception
  that \<^verbatim>\<open>except Exception\<close> catches, or it raises past that clause.
\<close>

datatype completion = Completed | Caught exn | Escaped exn

record request =
  http_method :: string
  url :: string
  json :: "exn + string"

record http_response =
  body :: string
  statusCode :: nat

section \<open>Fixed texts\<close>

definition a_acute :: string where "a_acute = [CHR 0xC3, CHR 0xA1]"
definition e_acute :: string where "e_acute = [CHR 0xC3, CHR 0xA9]"
definition i_acute :: string where "i_acute = [CHR 0xC3, CHR 0xAD]"
definition o_acute :: string where "o_acute = [CHR 0xC3, CHR 0xB3]"
definition inv_exclam :: string where "inv_exclam = [CHR 0xC2, CHR 0xA1]"
definition inv_quest :: string where "inv_quest = [CHR 0xC2, CHR 0xBF]"

definition greeting :: "string \<Rightarrow> string" where
  "greeting name =
     inv_exclam @ ''Hola '' @ name @ ''! Soy tu asistente de IA. Env'' @ i_acute
       @ ''ame un mensaje y conversaremos.''"

definition main_greeting :: string where
  "main_greeting =
     inv_exclam @ ''Hola! Soy tu asistente de IA. Env'' @ i_acute
       @ ''ame un mensaje para empezar a conversar.''"

definition msg_recitation :: string where
  "msg_recitation =
     ''Lo siento, no puedo proporcionar esa informaci'' @ o_acute
       @ ''n directamente debido a restricciones de contenido (posible recitaci'' @ o_acute
       @ ''n de fuentes). Por favor, intenta reformular tu pregunta.''"

definition msg_safety :: string where
  "msg_safety =
     ''Lo siento, no puedo responder a esa pregunta debido a nuestras pol'' @ i_acute
       @ ''ticas de seguridad de contenido. Por favor, intenta con otra pregunta.''"

definition msg_other :: "string \<Rightarrow> string" where
  "msg_other reason =
     ''Lo siento, no pude generar una respuesta clara. Raz'' @ o_acute @ ''n: '' @ reason
       @ ''. '' @ inv_quest @ ''Puedes intentar reformular?''"

definition msg_generic :: string where
  "msg_generic =
     ''Lo siento, no pude generar una respuesta para esa pregunta. Por favor, intenta reformularla.''"

definition msg_error :: string where
  "msg_error =
     ''Lo siento, hubo un error al procesar tu solicitud. Por favor, int'' @ e_acute
       @ ''ntalo de nuevo m'' @ a_acute @ ''s tarde.''"

definition main_msg_error :: string where
  "main_msg_error =
     ''Lo siento, hubo un problema al procesar tu solicitud. Int'' @ e_acute
       @ ''ntalo de nuevo m'' @ a_acute @ ''s tarde.''"

definition msg_no_token :: string where
  "msg_no_token = ''Internal Server Error: Bot Token not configured''"

definition msg_liveness :: string where
  "msg_liveness =
     ''Bot est'' @ a_acute @ '' corriendo (webhook endpoint). Env'' @ i_acute
       @ ''a una petici'' @ o_acute @ ''n POST de Telegram.''"

text \<open>\<^verbatim>\<open>'NoneType' object has no attribute '...'\<close>, the text of the \<^verbatim>\<open>AttributeError\<close>
  of an attribute read on \<^verbatim>\<open>None\<close>.\<close>

definition none_has_no_attribute :: "string \<Rightarrow> exn" where
  "none_has_no_attribute name =
     [CHR 0x27] @ ''NoneType'' @ [CHR 0x27] @ '' object has no attribute '' @ [CHR 0x27]
       @ name @ [CHR 0x27]"

text \<open>The text of the \<^verbatim>\<open>RuntimeError\<close> of a dispatcher that was never initialised.\<close>

definition not_initialized :: exn where
  "not_initialized =
     ''This Application was not initialized via '' @ [CHR 0x60] @ ''Application.initialize''
       @ [CHR 0x60] @ ''!''"

section \<open>The handlers of api/webhook.py\<close>

text \<open>The registry of a freshly loaded module: \<^verbatim>\<open>user_chats = {}\<close>.\<close>

definition initial_state :: "'sess \<Rightarrow> 'sess state" where
  "initial_state dummy =
     \<lparr>user_chats = Map.empty, sessions = (\<lambda>_. dummy), next_handle = 0, outbox = []\<rparr>"

text \<open>\<^verbatim>\<open>await update.message.reply_text(t)\<close> for one of the fixed messages.\<close>

definition reply_text :: "update \<Rightarrow> string \<Rightarrow> 'sess state \<Rightarrow> 'sess state" where
  "reply_text update t st =
     st\<lparr>outbox := outbox st @ [(user_id (effective_user update), t)]\<rparr>"

text \<open>
  \<^verbatim>\<open>await update.message.reply_text(response.text)\<close> inside a \<^verbatim>\<open>try\<close> block
  (line 70, and line 62 of \<^verbatim>\<open>02_main.py\<close>).
\<close>

definition reply_response_text ::
    "'sess env \<Rightarrow> update \<Rightarrow> string \<Rightarrow> 'sess state \<Rightarrow> completion \<times> 'sess state" where
  "reply_response_text env update t st =
     (case telegram_delivery env t of
        Delivered \<Rightarrow> (Completed, reply_text update t st)
      | Rejected e \<Rightarrow> (Caught e, st)
      | Interrupted b \<Rightarrow> (Escaped b, st))"

text \<open>
  \<^verbatim>\<open>if user_id not in user_chats: user_chats[user_id] = llm_model.start_chat(history=[])\<close>,
  the same two lines in all four handlers.
\<close>

definition ensure_session :: "'sess env \<Rightarrow> int \<Rightarrow> 'sess state \<Rightarrow> exn + 'sess state" where
  "ensure_session env uid st =
     (case user_chats st uid of
        Some h \<Rightarrow> Inr st
      | None \<Rightarrow>
          (case start_chat env of
             Inl e \<Rightarrow> Inl e
           | Inr s \<Rightarrow>
               Inr (st\<lparr>user_chats := (user_chats st)(uid \<mapsto> next_handle st),
                       sessions := (sessions st)(next_handle st := s),
                       next_handle := Suc (next_handle st)\<rparr>)))"

text \<open>\<^verbatim>\<open>start\<close> on an update that carries a message.\<close>

definition start :: "'sess env \<Rightarrow> update \<Rightarrow> 'sess state \<Rightarrow> outcome \<times> 'sess state" where
  "start env update st =
     (case ensure_session env (user_id (effective_user update)) st of
        Inl e \<Rightarrow> (Raised e, st)
      | Inr st1 \<Rightarrow>
          (Returned, reply_text update (greeting (first_name (effective_user update))) st1))"

text \<open>
  \<^verbatim>\<open>start\<close>, of either file, on an update without message: the two lines of session
  resolution run, then \<^verbatim>\<open>update.message.reply_text\<close> is an attribute read on
  \<^verbatim>\<open>None\<close> (line 54, line 36 of \<^verbatim>\<open>02_main.py\<close>).
\<close>

definition start_without_message ::
    "'sess env \<Rightarrow> update \<Rightarrow> 'sess state \<Rightarrow> outcome \<times> 'sess state" where
  "start_without_message env update st =
     (case ensure_session env (user_id (effective_user update)) st of
        Inl e \<Rightarrow> (Raised e, st)
      | Inr st1 \<Rightarrow> (Raised (none_has_no_attribute ''reply_text''), st1))"

text \<open>
  Lines 73-82: the reason found on the first candidate, if any. Reading
  \<^verbatim>\<open>.name\<close> on line 77 can raise.
\<close>

definition find_finish_reason :: "response \<Rightarrow> exn + string option" where
  "find_finish_reason response =
     (case candidates response of
        [] \<Rightarrow> Inr None
      | first_candidate # _ \<Rightarrow>
          (case finish_reason_attr first_candidate of
             EnumMember name \<Rightarrow> Inr (Some name)
           | NoName e \<Rightarrow> Inl e
           | NoAttribute \<Rightarrow>
               (case safety_ratings first_candidate of
                  None \<Rightarrow> Inr None
                | Some ratings \<Rightarrow>
                    (case find blocked ratings of
                       None \<Rightarrow> Inr None
                     | Some r \<Rightarrow> Inr (Some (''SEGURIDAD: '' @ category r))))))"

text \<open>Lines 84-92: the reply for a response without text.\<close>

definition empty_text_reply :: "string option \<Rightarrow> string" where
  "empty_text_reply reason =
     (case reason of
        None \<Rightarrow> msg_generic
      | Some r \<Rightarrow>
          if r = [] then msg_generic
          else if sublist ''RECITATION'' r then msg_recitation
          else if sublist ''SAFETY'' r then msg_safety
          else msg_other r)"

text \<open>
  The body of the \<^verbatim>\<open>try\<close> block of \<^verbatim>\<open>handle_message\<close>, lines 67-93, on the
  session with handle \<open>h\<close>. The session object is left as \<^verbatim>\<open>send_message_async\<close>
  leaves it, also when that call raises.
\<close>

definition try_block ::
    "'sess env \<Rightarrow> update \<Rightarrow> nat \<Rightarrow> 'sess state \<Rightarrow> completion \<times> 'sess state" where
  "try_block env update h st =
     (case send_message env (sessions st h) (message_text update) of
        (res, s') \<Rightarrow>
          (let st1 = st\<lparr>sessions := (sessions st)(h := s')\<rparr> in
           case res of
             Inl e \<Rightarrow> (Caught e, st1)
           | Inr response \<Rightarrow>
               (case response_text response of
                  Inl e \<Rightarrow> (Caught e, st1)
                | Inr t \<Rightarrow>
                    if t \<noteq> [] then reply_response_text env update t st1
                    else
                      (case find_finish_reason response of
                         Inl e \<Rightarrow> (Caught e, st1)
                       | Inr reason \<Rightarrow>
                           (Completed, reply_text update (empty_text_reply reason) st1)))))"

text \<open>
  \<^verbatim>\<open>handle_message\<close> on an update that carries a message. Session resolution stands
  before the \<^verbatim>\<open>try\<close>; the \<^verbatim>\<open>except Exception\<close> clause sends the error text.
\<close>

definition handle_message :: "'sess env \<Rightarrow> update \<Rightarrow> 'sess state \<Rightarrow> outcome \<times> 'sess state" where
  "handle_message env update st =
     (case ensure_session env (user_id (effective_user update)) st of
        Inl e \<Rightarrow> (Raised e, st)
      | Inr st1 \<Rightarrow>
          (case user_chats st1 (user_id (effective_user update)) of
             None \<Rightarrow> (Raised ''KeyError'', st1)
           | Some chat_session \<Rightarrow>
               (case try_block env update chat_session st1 of
                  (Completed, st2) \<Rightarrow> (Returned, st2)
                | (Caught e, st2) \<Rightarrow> (Returned, reply_text update msg_error st2)
                | (Escaped b, st2) \<Rightarrow> (Raised b, st2))))"

text \<open>
  \<^verbatim>\<open>handle_message\<close>, of either file, on an update without message: the first line,
  \<^verbatim>\<open>update.message.text\<close> (line 58, line 41 of \<^verbatim>\<open>02_main.py\<close>), raises before
  anything else runs.
\<close>

definition handle_message_without_message ::
    "'sess env \<Rightarrow> update \<Rightarrow> 'sess state \<Rightarrow> outcome \<times> 'sess state" where
  "handle_message_without_message env update st = (Raised (none_has_no_attribute ''text''), st)"

text \<open>
  The two handlers registered on lines 121-122, \<^verbatim>\<open>CommandHandler("start", start)\<close> and
  \<^verbatim>\<open>MessageHandler(filters.TEXT & ~filters.COMMAND, handle_message)\<close>, as the
  library's dispatcher calls them. It catches an exception that leaves a handler and
  passes it to its error handlers, of which this file registers none.
\<close>

definition dispatch :: "'sess env \<Rightarrow> inbound \<Rightarrow> 'sess state \<Rightarrow> 'sess state" where
  "dispatch env inb st =
     (case inb of
        WithMessage update \<Rightarrow>
          (case kind update of
             Command c \<Rightarrow> if c = ''start'' then snd (start env update st) else st
           | TextMessage \<Rightarrow> snd (handle_message env update st)
           | Other \<Rightarrow> st)
      | WithoutMessage update \<Rightarrow>
          (case kind update of
             Command c \<Rightarrow>
               if c = ''start'' then snd (start_without_message env update st) else st
           | TextMessage \<Rightarrow> snd (handle_message_without_message env update st)
           | Other \<Rightarrow> st))"

text \<open>
  \<^verbatim>\<open>Application.process_update\<close> of the library: it first checks that the
  application was initialised and raises a \<^verbatim>\<open>RuntimeError\<close> otherwise.
\<close>

definition application_process_update ::
    "bool \<Rightarrow> 'sess env \<Rightarrow> inbound \<Rightarrow> 'sess state \<Rightarrow> exn + 'sess state" where
  "application_process_update initialized env inb st =
     (if \<not> initialized then Inl not_initialized else Inr (dispatch env inb st))"

text \<open>
  Line 134, \<^verbatim>\<open>await application.process_update(update)\<close>, on the application that
  line 117 builds: \<^verbatim>\<open>handler\<close> never calls \<^verbatim>\<open>application.initialize()\<close>.
\<close>

definition process_update :: "'sess env \<Rightarrow> inbound \<Rightarrow> 'sess state \<Rightarrow> exn + 'sess state" where
  "process_update env inb st = application_process_update False env inb st"

text \<open>\<^verbatim>\<open>if not TELEGRAM_BOT_TOKEN\<close>: unset or empty.\<close>

definition token_configured :: "'sess env \<Rightarrow> bool" where
  "token_configured env =
     (case TELEGRAM_BOT_TOKEN env of None \<Rightarrow> False | Some t \<Rightarrow> t \<noteq> [])"

text \<open>
  \<^verbatim>\<open>handler(request)\<close>. It reads and writes the module-level \<^verbatim>\<open>user_chats\<close>: the
  state goes in and comes out.
\<close>

definition handler :: "'sess env \<Rightarrow> request \<Rightarrow> 'sess state \<Rightarrow> http_response \<times> 'sess state" where
  "handler env request st =
     (if \<not> token_configured env then (\<lparr>body = msg_no_token, statusCode = 500\<rparr>, st)
      else if http_method request = ''POST'' then
        (case json request of
           Inl e \<Rightarrow> (\<lparr>body = ''Error: '' @ e, statusCode = 500\<rparr>, st)
         | Inr update_data \<Rightarrow>
             (case de_json env update_data of
                Inl e \<Rightarrow> (\<lparr>body = ''Error: '' @ e, statusCode = 500\<rparr>, st)
              | Inr update \<Rightarrow>
                  (case process_update env update st of
                     Inl e \<Rightarrow> (\<lparr>body = ''Error: '' @ e, statusCode = 500\<rparr>, st)
                   | Inr st' \<Rightarrow> (\<lparr>body = ''OK'', statusCode = 200\<rparr>, st'))))
      else (\<lparr>body = msg_liveness, statusCode = 200\<rparr>, st))"

section \<open>The handlers of 02_main.py\<close>

definition main_start :: "'sess env \<Rightarrow> update \<Rightarrow> 'sess state \<Rightarrow> outcome \<times> 'sess state" where
  "main_start env update st =
     (case ensure_session env (user_id (effective_user update)) st of
        Inl e \<Rightarrow> (Raised e, st)
      | Inr st1 \<Rightarrow> (Returned, reply_text update main_greeting st1))"

text \<open>Lines 55-62: the \<^verbatim>\<open>try\<close> block sends \<^verbatim>\<open>response.text\<close> as it is.\<close>

definition main_try_block ::
    "'sess env \<Rightarrow> update \<Rightarrow> nat \<Rightarrow> 'sess state \<Rightarrow> completion \<times> 'sess state" where
  "main_try_block env update h st =
     (case send_message env (sessions st h) (message_text update) of
        (res, s') \<Rightarrow>
          (let st1 = st\<lparr>sessions := (sessions st)(h := s')\<rparr> in
           case res of
             Inl e \<Rightarrow> (Caught e, st1)
           | Inr response \<Rightarrow>
               (case response_text response of
                  Inl e \<Rightarrow> (Caught e, st1)
                | Inr ai_response \<Rightarrow> reply_response_text env update ai_response st1)))"

definition main_handle_message :: "'sess env \<Rightarrow> update \<Rightarrow> 'sess state \<Rightarrow> outcome \<times> 'sess state" where
  "main_handle_message env update st =
     (case ensure_session env (user_id (effective_user update)) st of
        Inl e \<Rightarrow> (Raised e, st)
      | Inr st1 \<Rightarrow>
          (case user_chats st1 (user_id (effective_user update)) of
             None \<Rightarrow> (Raised ''KeyError'', st1)
           | Some chat \<Rightarrow>
               (case main_try_block env update chat st1 of
                  (Completed, st2) \<Rightarrow> (Returned, st2)
                | (Caught e, st2) \<Rightarrow> (Returned, reply_text update main_msg_error st2)
                | (Escaped b, st2) \<Rightarrow> (Raised b, st2))))"

text \<open>
  The dispatcher of \<^verbatim>\<open>main\<close>, which \<^verbatim>\<open>run_polling\<close> initialises: the same two
  routes; an exception that leaves a handler goes to \<^verbatim>\<open>error_handler\<close>, which
  prints and sends nothing. \<^verbatim>\<open>run_polling\<close> is the loop over the updates the
  platform delivers.
\<close>

definition main_process_update :: "'sess env \<Rightarrow> inbound \<Rightarrow> 'sess state \<Rightarrow> 'sess state" where
  "main_process_update env inb st =
     (case inb of
        WithMessage update \<Rightarrow>
          (case kind update of
             Command c \<Rightarrow> if c = ''start'' then snd (main_start env update st) else st
           | TextMessage \<Rightarrow> snd (main_handle_message env update st)
           | Other \<Rightarrow> st)
      | WithoutMessage update \<Rightarrow>
          (case kind update of
             Command c \<Rightarrow>
               if c = ''start'' then snd (start_without_message env update st) else st
           | TextMessage \<Rightarrow> snd (handle_message_without_message env update st)
           | Other \<Rightarrow> st))"

fun run_polling :: "'sess env \<Rightarrow> inbound list \<Rightarrow> 'sess state \<Rightarrow> 'sess state" where
  "run_polling env [] st = st"
| "run_polling env (u # us) st = run_polling env us (main_process_update env u st)"

text \<open>
  Well-formed registries: every stored handle has been allocated, and no two users
  share a handle. The registry of a fresh module is well formed and the handlers keep
  it so; on such registries a handle read from \<open>user_chats\<close> is a live session object
  of exactly one user.
\<close>

definition registry_ok :: "'sess state \<Rightarrow> bool" where
  "registry_ok st \<longleftrightarrow>
     (\<forall>u h. user_chats st u = Some h \<longrightarrow> h < next_handle st)
     \<and> (\<forall>u v h. user_chats st u = Some h \<and> user_chats st v = Some h \<longrightarrow> u = v)"

section \<open>Concrete inputs\<close>

text \<open>
  A small world to run the handlers in: a session is the list of the messages sent
  in it so far, and the model answers with all of them joined, so a reply shows how
  much history the session carried. The platform takes a text of 1 to 4096
  characters. A request body decodes to a text message of user 7 with that body as
  its text.
\<close>

definition demo_user :: user where
  "demo_user = \<lparr>user_id = 7, first_name = ''Ana''\<rparr>"

definition other_user :: user where
  "other_user = \<lparr>user_id = 8, first_name = ''Bob''\<rparr>"

definition text_update :: "user \<Rightarrow> string \<Rightarrow> update" where
  "text_update u t = \<lparr>kind = TextMessage, effective_user = u, message_text = t\<rparr>"

definition start_update :: "user \<Rightarrow> update" where
  "start_update u = \<lparr>kind = Command ''start'', effective_user = u, message_text = ''/start''\<rparr>"

definition text_response :: "string \<Rightarrow> response" where
  "text_response t = \<lparr>response_text = Inr t, candidates = []\<rparr>"

definition reason_response :: "string \<Rightarrow> response" where
  "reason_response name =
     \<lparr>response_text = Inr [],
      candidates = [\<lparr>finish_reason_attr = EnumMember name, safety_ratings = None\<rparr>]\<rparr>"

definition rating_response :: "rating list \<Rightarrow> response" where
  "rating_response ratings =
     \<lparr>response_text = Inr [],
      candidates = [\<lparr>finish_reason_attr = NoAttribute, safety_ratings = Some ratings\<rparr>]\<rparr>"

definition harassment :: rating where
  "harassment = \<lparr>blocked = True, category = ''HARM_CATEGORY_HARASSMENT''\<rparr>"

text \<open>A candidate with the finish reason OTHER and a blocked safety rating, no text.\<close>

definition blocked_other_response :: response where
  "blocked_other_response =
     \<lparr>response_text = Inr [],
      candidates = [\<lparr>finish_reason_attr = EnumMember ''OTHER'',
                     safety_ratings = Some [harassment]\<rparr>]\<rparr>"

text \<open>A candidate whose finish reason is a bare number, without a name.\<close>

definition nameless_response :: response where
  "nameless_response =
     \<lparr>response_text = Inr [],
      candidates = [\<lparr>finish_reason_attr = NoName (none_has_no_attribute ''name''),
                     safety_ratings = None\<rparr>]\<rparr>"

definition telegram_limits :: "string \<Rightarrow> delivery" where
  "telegram_limits t =
     (if t = [] then Rejected ''Message text is empty''
      else if 4096 < length t then Rejected ''Message is too long''
      else Delivered)"

definition demo_env :: "string list env" where
  "demo_env =
     \<lparr>TELEGRAM_BOT_TOKEN = Some ''42:token'',
      start_chat = Inr [],
      send_message = (\<lambda>history m. (Inr (text_response (concat (history @ [m]))), history @ [m])),
      de_json = (\<lambda>d. if d = [] then Inl ''no update''
                      else Inr (WithMessage (text_update demo_user d))),
      telegram_delivery = telegram_limits\<rparr>"

definition answering :: "response \<Rightarrow> string list env" where
  "answering r = demo_env\<lparr>send_message := (\<lambda>history m. (Inr r, history @ [m]))\<rparr>"

definition failing :: "exn \<Rightarrow> string list env" where
  "failing e = demo_env\<lparr>send_message := (\<lambda>history m. (Inl e, history))\<rparr>"

text \<open>A model answer of 5000 characters.\<close>

definition long_text :: string where
  "long_text = replicate 5000 (CHR ''a'')"

definition post :: "string \<Rightarrow> request" where
  "post d = \<lparr>http_method = ''POST'', url = ''/api/webhook'', json = Inr d\<rparr>"

definition get_request :: request where
  "get_request = \<lparr>http_method = ''GET'', url = ''/api/webhook'', json = Inl ''no body''\<rparr>"

definition empty_registry :: "string list state" where
  "empty_registry = initial_state []"

text \<open>The registry once user 7 has a session, with nothing sent yet.\<close>

definition after_start :: "string list state" where
  "after_start =
     \<lparr>user_chats = [7 \<mapsto> 0], sessions = (\<lambda>_. [])(0 := []), next_handle = 1,
      outbox = []\<rparr>"

text \<open>A registry in which user 7 has a session that has seen the text hello.\<close>

definition warm_registry :: "string list state" where
  "warm_registry =
     \<lparr>user_chats = [7 \<mapsto> 0], sessions = (\<lambda>_. [])(0 := [''hello'']), next_handle = 1,
      outbox = [(7, ''hello'')]\<rparr>"

lemmas demo_defs =
  demo_user_def other_user_def text_update_def start_update_def text_response_def
  reason_response_def rating_response_def demo_env_def answering_def failing_def post_def
  get_request_def empty_registry_def initial_state_def after_start_def warm_registry_def
  harassment_def blocked_other_response_def nameless_response_def telegram_limits_def

lemmas text_defs =
  a_acute_def e_acute_def i_acute_def o_acute_def inv_exclam_def inv_quest_def
  greeting_def main_greeting_def msg_recitation_def msg_safety_def msg_other_def
  msg_generic_def msg_error_def main_msg_error_def msg_no_token_def msg_liveness_def

section \<open>The session registry under the handlers\<close>



lemma ensure_session_raises:
  "user_chats st uid = None \<Longrightarrow> start_chat env = Inl e \<Longrightarrow> ensure_session env uid st = Inl e"
  by (simp add: ensure_session_def)


lemma ensure_session_outbox:
  "ensure_session env uid st = Inr st1 \<Longrightarrow> outbox st1 = outbox st"
  by (auto simp: ensure_session_def split: option.splits sum.splits)

lemma ensure_session_keeps:
  "ensure_session env uid st = Inr st1 \<Longrightarrow> user_chats st u = Some h \<Longrightarrow> user_chats st1 u = Some h"
  by (auto simp: ensure_session_def split: option.splits sum.splits)

lemma reply_text_fields:
  "user_chats (reply_text update t st) = user_chats st"
  "next_handle (reply_text update t st) = next_handle st"
  "sessions (reply_text update t st) = sessions st"
  "outbox (reply_text update t st) = outbox st @ [(user_id (effective_user update), t)]"
  by (simp_all add: reply_text_def)

lemma reply_response_text_fields:
  "user_chats (snd (reply_response_text env update t st)) = user_chats st"
  "next_handle (snd (reply_response_text env update t st)) = next_handle st"
  "sessions (snd (reply_response_text env update t st)) = sessions st"
  by (simp_all add: reply_response_text_def reply_text_def split: delivery.splits)

lemma try_block_registry:
  "user_chats (snd (try_block env update h st)) = user_chats st"
  "next_handle (snd (try_block env update h st)) = next_handle st"
  by (auto simp: try_block_def reply_response_text_fields reply_text_def Let_def
        split: prod.splits sum.splits)

lemma main_try_block_registry:
  "user_chats (snd (main_try_block env update h st)) = user_chats st"
  "next_handle (snd (main_try_block env update h st)) = next_handle st"
  by (auto simp: main_try_block_def reply_response_text_fields Let_def
        split: prod.splits sum.splits)









section \<open>The error path of handle_message\<close>

lemma demo_resolution:
  "ensure_session (demo_env\<lparr>send_message := f\<rparr>) 7 empty_registry = Inr after_start"
  "user_chats after_start 7 = Some 0"
  "sessions after_start 0 = []"
  "outbox empty_registry = []"
  "user_id (effective_user (text_update demo_user t)) = 7"
  "message_text (text_update demo_user t) = t"
  by (simp_all add: demo_defs ensure_session_def)

text \<open>
  C9. If the user had no entry, \<^verbatim>\<open>handle_message\<close> creates one, and the LLM call on
  the new session then raises, the handler returns and the new entry is still in the
  registry: nothing is rolled back.
\<close>

theorem new_entry_survives_llm_error:
  assumes "user_chats st (user_id (effective_user update)) = None"
    and "start_chat env = Inr s0"
    and "fst (send_message env s0 (message_text update)) = Inl e"
  shows "fst (handle_message env update st) = Returned
       \<and> user_chats (snd (handle_message env update st)) (user_id (effective_user update))
           = Some (next_handle st)
       \<and> fst (main_handle_message env update st) = Returned
       \<and> user_chats (snd (main_handle_message env update st)) (user_id (effective_user update))
           = Some (next_handle st)"
  using assms
  by (cases "send_message env s0 (message_text update)")
     (simp add: ensure_session_def handle_message_def try_block_def
        main_handle_message_def main_try_block_def reply_text_fields)

theorem new_entry_survives_llm_error_witness:
  "user_chats empty_registry (user_id (effective_user (text_update demo_user ''hi''))) = None
   \<and> start_chat (failing ''quota'') = Inr []
   \<and> fst (send_message (failing ''quota'') [] (message_text (text_update demo_user ''hi'')))
       = Inl ''quota''
   \<and> fst (handle_message (failing ''quota'') (text_update demo_user ''hi'') empty_registry)
       = Returned
   \<and> user_chats (snd (handle_message (failing ''quota'') (text_update demo_user ''hi'')
        empty_registry)) 7 = Some 0"
  using new_entry_survives_llm_error [where st = empty_registry
      and update = "text_update demo_user ''hi''" and env = "failing ''quota''"
      and ?s0.0 = "[]" and e = "''quota''"]
  by (simp add: demo_defs)

section \<open>The HTTP handler\<close>

text \<open>
  C5. The status contract of \<^verbatim>\<open>handler\<close>. Without a bot token every request, whatever
  its method and body, gets status 500 and the fixed configuration text, and nothing is
  decoded or changed. With a token, a GET request gets status 200 and the liveness text;
  a POST request whose body fails to decode (\<^verbatim>\<open>request.json()\<close> or
  \<^verbatim>\<open>Update.de_json\<close> raises) or to process (\<^verbatim>\<open>process_update\<close> raises) gets
  status 500 and the error's text after \<^verbatim>\<open>Error: \<close>.
\<close>

theorem handler_status_contract:
  "(\<not> token_configured env \<longrightarrow>
      handler env request st = (\<lparr>body = msg_no_token, statusCode = 500\<rparr>, st))
   \<and> (token_configured env \<and> http_method request = ''GET'' \<longrightarrow>
      handler env request st = (\<lparr>body = msg_liveness, statusCode = 200\<rparr>, st))
   \<and> (token_configured env \<and> http_method request = ''POST'' \<and> json request = Inl e \<longrightarrow>
      handler env request st = (\<lparr>body = ''Error: '' @ e, statusCode = 500\<rparr>, st))
   \<and> (token_configured env \<and> http_method request = ''POST'' \<and> json request = Inr d
        \<and> de_json env d = Inl e \<longrightarrow>
      handler env request st = (\<lparr>body = ''Error: '' @ e, statusCode = 500\<rparr>, st))
   \<and> (token_configured env \<and> http_method request = ''POST'' \<and> json request = Inr d
        \<and> de_json env d = Inr u \<and> process_update env u st = Inl e \<longrightarrow>
      handler env request st = (\<lparr>body = ''Error: '' @ e, statusCode = 500\<rparr>, st))"
  by (simp add: handler_def)

theorem handler_status_contract_witness:
  "\<not> token_configured (demo_env\<lparr>TELEGRAM_BOT_TOKEN := None\<rparr>)
   \<and> fst (handler (demo_env\<lparr>TELEGRAM_BOT_TOKEN := None\<rparr>) (post ''hello'') empty_registry)
       = \<lparr>body = ''Internal Server Error: Bot Token not configured'', statusCode = 500\<rparr>
   \<and> fst (handler (demo_env\<lparr>TELEGRAM_BOT_TOKEN := Some []\<rparr>) get_request empty_registry)
       = \<lparr>body = ''Internal Server Error: Bot Token not configured'', statusCode = 500\<rparr>
   \<and> token_configured demo_env
   \<and> fst (handler demo_env get_request empty_registry)
       = \<lparr>body = msg_liveness, statusCode = 200\<rparr>
   \<and> fst (handler demo_env ((post [])\<lparr>json := Inl ''Expecting value''\<rparr>) empty_registry)
       = \<lparr>body = ''Error: Expecting value'', statusCode = 500\<rparr>
   \<and> de_json demo_env [] = Inl ''no update''
   \<and> fst (handler demo_env (post []) empty_registry)
       = \<lparr>body = ''Error: no update'', statusCode = 500\<rparr>
   \<and> process_update demo_env (WithMessage (text_update demo_user ''hello'')) empty_registry
       = Inl not_initialized
   \<and> fst (handler demo_env (post ''hello'') empty_registry)
       = \<lparr>body = ''Error: '' @ not_initialized, statusCode = 500\<rparr>"
  using
    handler_status_contract [where env = "demo_env\<lparr>TELEGRAM_BOT_TOKEN := None\<rparr>"
      and request = "post ''hello''" and st = empty_registry]
    handler_status_contract [where env = "demo_env\<lparr>TELEGRAM_BOT_TOKEN := Some []\<rparr>"
      and request = get_request and st = empty_registry]
    handler_status_contract [where env = demo_env and request = get_request
      and st = empty_registry]
    handler_status_contract [where env = demo_env
      and request = "(post [])\<lparr>json := Inl ''Expecting value''\<rparr>"
      and st = empty_registry and e = "''Expecting value''"]
    handler_status_contract [where env = demo_env and request = "post []"
      and st = empty_registry and d = "[]" and e = "''no update''"]
    handler_status_contract [where env = demo_env
      and request = "post ''hello''" and st = empty_registry and d = "''hello''"
      and u = "WithMessage (text_update demo_user ''hello'')" and e = not_initialized]
  by (simp add: demo_defs token_configured_def process_update_def
        application_process_update_def msg_no_token_def)

section \<open>Responses without text\<close>

lemma msg_other_embeds: "sublist X (msg_other X)"
proof -
  have "msg_other X =
      (''Lo siento, no pude generar una respuesta clara. Raz'' @ o_acute @ ''n: '') @ X
        @ (''. '' @ inv_quest @ ''Puedes intentar reformular?'')"
    by (simp add: msg_other_def)
  then show ?thesis
    by (simp only: sublist_appendI)
qed

lemma fixed_texts_differ:
  "msg_recitation \<noteq> msg_generic" "msg_safety \<noteq> msg_generic" "msg_recitation \<noteq> msg_safety"
  by (simp_all add: text_defs)


lemma handle_message_empty_text:
  assumes "ensure_session env (user_id (effective_user update)) st = Inr st1"
    and "user_chats st1 (user_id (effective_user update)) = Some h"
    and "send_message env (sessions st1 h) (message_text update) = (Inr response, s')"
    and "response_text response = Inr []"
    and "find_finish_reason response = Inr reason"
  shows "outbox (snd (handle_message env update st)) =
     outbox st @ [(user_id (effective_user update), empty_text_reply reason)]"
    and "fst (handle_message env update st) = Returned"
  using assms ensure_session_outbox [OF assms(1)]
  by (simp_all add: handle_message_def try_block_def reply_text_fields)

lemma named_finish_reason:
  "candidates response = c # cs \<Longrightarrow> finish_reason c = Some X \<Longrightarrow>
   find_finish_reason response = Inr (Some X)"
  by (simp add: find_finish_reason_def finish_reason_def split: reason_attr.splits)

text \<open>
  C7. In \<^verbatim>\<open>handle_message\<close> of \<^verbatim>\<open>api/webhook.py\<close>, the one that classifies empty
  responses: when the response has no text and the first candidate's finish reason names
  recitation, the one reply is the fixed recitation text, which is not the generic
  fallback. When the finish reason is another name X, neither recitation nor safety,
  the reply contains X as it is; for a non-empty X it is the template around X.
\<close>

theorem finish_reason_replies:
  assumes "ensure_session env (user_id (effective_user update)) st = Inr st1"
    and "user_chats st1 (user_id (effective_user update)) = Some h"
    and "send_message env (sessions st1 h) (message_text update) = (Inr response, s')"
    and "response_text response = Inr []"
    and "candidates response = c # cs"
    and "finish_reason c = Some X"
  shows "(sublist ''RECITATION'' X \<longrightarrow>
            outbox (snd (handle_message env update st))
              = outbox st @ [(user_id (effective_user update), msg_recitation)]
            \<and> msg_recitation \<noteq> msg_generic)
       \<and> (\<not> sublist ''RECITATION'' X \<and> \<not> sublist ''SAFETY'' X \<longrightarrow>
            (\<exists>reply. outbox (snd (handle_message env update st))
                        = outbox st @ [(user_id (effective_user update), reply)]
                    \<and> sublist X reply)
            \<and> (X \<noteq> [] \<longrightarrow>
                 outbox (snd (handle_message env update st))
                   = outbox st @ [(user_id (effective_user update), msg_other X)]))"
proof -
  have ob: "outbox (snd (handle_message env update st)) =
      outbox st @ [(user_id (effective_user update), empty_text_reply (Some X))]"
    using handle_message_empty_text(1) [OF assms(1-4) named_finish_reason [OF assms(5,6)]] .
  have rec: "sublist ''RECITATION'' X \<Longrightarrow> empty_text_reply (Some X) = msg_recitation"
    by (auto simp: empty_text_reply_def)
  have oth: "\<not> sublist ''RECITATION'' X \<Longrightarrow> \<not> sublist ''SAFETY'' X \<Longrightarrow> X \<noteq> [] \<Longrightarrow>
      empty_text_reply (Some X) = msg_other X"
    by (simp add: empty_text_reply_def)
  have emb: "\<not> sublist ''RECITATION'' X \<Longrightarrow> \<not> sublist ''SAFETY'' X \<Longrightarrow>
      sublist X (empty_text_reply (Some X))"
    using oth msg_other_embeds [of X] by (cases "X = []") auto
  show ?thesis
    using ob rec oth emb fixed_texts_differ(1) by simp
qed

theorem finish_reason_replies_witness:
  "response_text (reason_response ''RECITATION'') = Inr []
   \<and> sublist ''RECITATION'' ''RECITATION''
   \<and> outbox (snd (handle_message (answering (reason_response ''RECITATION''))
        (text_update demo_user ''hi'') empty_registry)) = [(7, msg_recitation)]
   \<and> \<not> sublist ''RECITATION'' ''MAX_TOKENS'' \<and> \<not> sublist ''SAFETY'' ''MAX_TOKENS''
   \<and> outbox (snd (handle_message (answering (reason_response ''MAX_TOKENS''))
        (text_update demo_user ''hi'') empty_registry)) = [(7, msg_other ''MAX_TOKENS'')]"
proof -
  let ?u = "text_update demo_user ''hi''"
  have p1: "ensure_session (answering r) (user_id (effective_user ?u)) empty_registry
      = Inr after_start" for r
    by (simp add: answering_def demo_resolution)
  have p2: "user_chats after_start (user_id (effective_user ?u)) = Some 0"
    by (simp add: demo_resolution)
  have p3: "send_message (answering (reason_response n)) (sessions after_start 0) (message_text ?u)
      = (Inr (reason_response n), [''hi''])" for n
    by (simp add: demo_resolution answering_def demo_env_def)
  have p4: "response_text (reason_response n) = Inr []" for n
    by (simp add: reason_response_def)
  have p5: "candidates (reason_response n)
      = \<lparr>finish_reason_attr = EnumMember n, safety_ratings = None\<rparr> # []" for n
    by (simp add: reason_response_def)
  have p6: "finish_reason \<lparr>finish_reason_attr = EnumMember n, safety_ratings = None\<rparr> = Some n"
    for n
    by (simp add: finish_reason_def)
  have s1: "sublist ''RECITATION'' ''RECITATION''"
    by simp
  have s2: "\<not> sublist ''RECITATION'' ''MAX_TOKENS''" "\<not> sublist ''SAFETY'' ''MAX_TOKENS''"
      "''MAX_TOKENS'' \<noteq> []"
    by (simp_all add: sublist_Cons_right)
  note r = finish_reason_replies [OF p1 p2 p3 p4 p5 p6]
  show ?thesis
    using r [of "''RECITATION''"] r [of "''MAX_TOKENS''"] s1 s2 p4
    by (simp add: demo_resolution)
qed

section \<open>The registry across interactions\<close>






section \<open>The reply with the model's text\<close>

lemma handle_message_with_text:
  assumes "ensure_session env (user_id (effective_user update)) st = Inr st1"
    and "user_chats st1 (user_id (effective_user update)) = Some h"
    and "send_message env (sessions st1 h) (message_text update) = (Inr response, s')"
    and "response_text response = Inr R" and "R \<noteq> []"
  shows "handle_message env update st =
     (case telegram_delivery env R of
        Delivered \<Rightarrow>
          (Returned, reply_text update R (st1\<lparr>sessions := (sessions st1)(h := s')\<rparr>))
      | Rejected e \<Rightarrow>
          (Returned, reply_text update msg_error (st1\<lparr>sessions := (sessions st1)(h := s')\<rparr>))
      | Interrupted b \<Rightarrow> (Raised b, st1\<lparr>sessions := (sessions st1)(h := s')\<rparr>))"
  using assms
  by (simp add: handle_message_def try_block_def reply_response_text_def split: delivery.splits)

lemma main_handle_message_with_text:
  assumes "ensure_session env (user_id (effective_user update)) st = Inr st1"
    and "user_chats st1 (user_id (effective_user update)) = Some h"
    and "send_message env (sessions st1 h) (message_text update) = (Inr response, s')"
    and "response_text response = Inr R"
  shows "main_handle_message env update st =
     (case telegram_delivery env R of
        Delivered \<Rightarrow>
          (Returned, reply_text update R (st1\<lparr>sessions := (sessions st1)(h := s')\<rparr>))
      | Rejected e \<Rightarrow>
          (Returned,
           reply_text update main_msg_error (st1\<lparr>sessions := (sessions st1)(h := s')\<rparr>))
      | Interrupted b \<Rightarrow> (Raised b, st1\<lparr>sessions := (sessions st1)(h := s')\<rparr>))"
  using assms
  by (simp add: main_handle_message_def main_try_block_def reply_response_text_def
        split: delivery.splits)

text \<open>
  A raise that is no \<^verbatim>\<open>Exception\<close>, while the reply is awaited, is not caught: it
  leaves the handler and nothing is sent.
\<close>

lemma interrupt_leaves_handler:
  assumes "ensure_session env (user_id (effective_user update)) st = Inr st1"
    and "user_chats st1 (user_id (effective_user update)) = Some h"
    and "send_message env (sessions st1 h) (message_text update) = (Inr response, s')"
    and "response_text response = Inr R" and "R \<noteq> []"
    and "telegram_delivery env R = Interrupted b"
  shows "fst (handle_message env update st) = Raised b"
    and "outbox (snd (handle_message env update st)) = outbox st"
    and "fst (main_handle_message env update st) = Raised b"
    and "outbox (snd (main_handle_message env update st)) = outbox st"
  using handle_message_with_text [OF assms(1-5)] main_handle_message_with_text [OF assms(1-4)]
    assms(6) ensure_session_outbox [OF assms(1)]
  by simp_all

lemma long_text_facts:
  "long_text \<noteq> []"
  "telegram_limits long_text = Rejected ''Message is too long''"
  "msg_error \<noteq> long_text" "main_msg_error \<noteq> long_text"
proof -
  show "long_text \<noteq> []"
    by (simp add: long_text_def)
  show "telegram_limits long_text = Rejected ''Message is too long''"
    by (simp add: long_text_def telegram_limits_def)
  have "length msg_error \<noteq> length long_text" "length main_msg_error \<noteq> length long_text"
    by (simp_all add: text_defs long_text_def)
  then show "msg_error \<noteq> long_text" "main_msg_error \<noteq> long_text"
    by auto
qed

text \<open>
  C3, as the claim states it, fails for a text the platform rejects: the model answers
  with 5000 characters, \<^verbatim>\<open>reply_text\<close> raises inside the \<^verbatim>\<open>try\<close> block, and the
  one reply sent is the fixed error text, in both files.
\<close>

theorem long_text_is_not_sent:
  "response_text (text_response long_text) = Inr long_text \<and> long_text \<noteq> []
   \<and> telegram_delivery (answering (text_response long_text)) long_text
       = Rejected ''Message is too long''
   \<and> outbox (snd (handle_message (answering (text_response long_text))
        (text_update demo_user ''hi'') empty_registry)) = [(7, msg_error)]
   \<and> msg_error \<noteq> long_text
   \<and> outbox (snd (main_handle_message (answering (text_response long_text))
        (text_update demo_user ''hi'') empty_registry)) = [(7, main_msg_error)]
   \<and> main_msg_error \<noteq> long_text"
proof -
  let ?env = "answering (text_response long_text)"
  let ?u = "text_update demo_user ''hi''"
  have p1: "ensure_session ?env (user_id (effective_user ?u)) empty_registry = Inr after_start"
    by (simp add: answering_def demo_resolution)
  have p2: "user_chats after_start (user_id (effective_user ?u)) = Some 0"
    by (simp add: demo_resolution)
  have p3: "send_message ?env (sessions after_start 0) (message_text ?u)
      = (Inr (text_response long_text), [''hi''])"
    by (simp add: demo_resolution answering_def demo_env_def)
  have p4: "response_text (text_response long_text) = Inr long_text"
    by (simp add: text_response_def)
  have d: "telegram_delivery ?env long_text = Rejected ''Message is too long''"
    by (simp add: answering_def demo_env_def long_text_facts)
  show ?thesis
    using handle_message_with_text [OF p1 p2 p3 p4 long_text_facts(1)]
      main_handle_message_with_text [OF p1 p2 p3 p4] d p4 long_text_facts
    by (simp add: reply_text_fields demo_resolution after_start_def)
qed

text \<open>
  C3, as the code has it. When the model response carries non-empty text R and the
  platform takes R as a message, \<^verbatim>\<open>handle_message\<close> returns and has sent exactly one
  reply, R itself, in both files. When the platform rejects R, the handler returns and
  has sent exactly one reply, the fixed error text of its file.
\<close>

theorem nonempty_text_sent_verbatim:
  assumes "ensure_session env (user_id (effective_user update)) st = Inr st1"
    and "user_chats st1 (user_id (effective_user update)) = Some h"
    and "send_message env (sessions st1 h) (message_text update) = (Inr response, s')"
    and "response_text response = Inr R" and "R \<noteq> []"
  shows "(telegram_delivery env R = Delivered \<longrightarrow>
            fst (handle_message env update st) = Returned
            \<and> outbox (snd (handle_message env update st))
                = outbox st @ [(user_id (effective_user update), R)]
            \<and> fst (main_handle_message env update st) = Returned
            \<and> outbox (snd (main_handle_message env update st))
                = outbox st @ [(user_id (effective_user update), R)])
       \<and> (telegram_delivery env R = Rejected e \<longrightarrow>
            fst (handle_message env update st) = Returned
            \<and> outbox (snd (handle_message env update st))
                = outbox st @ [(user_id (effective_user update), msg_error)]
            \<and> fst (main_handle_message env update st) = Returned
            \<and> outbox (snd (main_handle_message env update st))
                = outbox st @ [(user_id (effective_user update), main_msg_error)])"
  using handle_message_with_text [OF assms] main_handle_message_with_text [OF assms(1-4)]
    ensure_session_outbox [OF assms(1)]
  by (simp add: reply_text_fields)

theorem nonempty_text_sent_verbatim_witness:
  "ensure_session demo_env (user_id (effective_user (text_update demo_user ''hi'')))
       empty_registry = Inr after_start
   \<and> response_text (text_response ''hi'') = Inr ''hi'' \<and> ''hi'' \<noteq> []
   \<and> telegram_delivery demo_env ''hi'' = Delivered
   \<and> fst (handle_message demo_env (text_update demo_user ''hi'') empty_registry) = Returned
   \<and> outbox (snd (handle_message demo_env (text_update demo_user ''hi'') empty_registry))
       = [(7, ''hi'')]
   \<and> fst (main_handle_message demo_env (text_update demo_user ''hi'') empty_registry) = Returned
   \<and> outbox (snd (main_handle_message demo_env (text_update demo_user ''hi'') empty_registry))
       = [(7, ''hi'')]
   \<and> telegram_delivery (answering (text_response long_text)) long_text
       = Rejected ''Message is too long''
   \<and> fst (handle_message (answering (text_response long_text))
        (text_update demo_user ''hi'') empty_registry) = Returned
   \<and> outbox (snd (handle_message (answering (text_response long_text))
        (text_update demo_user ''hi'') empty_registry)) = [(7, msg_error)]"
proof -
  let ?u = "text_update demo_user ''hi''"
  have p1: "ensure_session demo_env (user_id (effective_user ?u)) empty_registry
      = Inr after_start"
    "ensure_session (answering r) (user_id (effective_user ?u)) empty_registry
      = Inr after_start" for r
    by (simp_all add: demo_defs ensure_session_def)
  have p2: "user_chats after_start (user_id (effective_user ?u)) = Some 0"
    by (simp add: demo_resolution)
  have p3: "send_message demo_env (sessions after_start 0) (message_text ?u)
      = (Inr (text_response ''hi''), [''hi''])"
    "send_message (answering r) (sessions after_start 0) (message_text ?u)
      = (Inr r, [''hi''])" for r
    by (simp_all add: demo_resolution answering_def demo_env_def)
  have p4: "response_text (text_response t) = Inr t" for t
    by (simp add: text_response_def)
  have d: "telegram_delivery demo_env ''hi'' = Delivered"
    "telegram_delivery (answering r) long_text = Rejected ''Message is too long''" for r
    by (simp_all add: answering_def demo_env_def long_text_facts)
      (simp add: telegram_limits_def)
  have ne: "''hi'' \<noteq> []"
    by simp
  show ?thesis
    using nonempty_text_sent_verbatim [OF p1(1) p2 p3(1) p4 ne, of "''none''"]
      nonempty_text_sent_verbatim [OF p1(2) p2 p3(2) p4 long_text_facts(1),
        of "''Message is too long''"]
      p1(1) p4 d
    by (simp add: demo_resolution)
qed




section \<open>Safety blocks\<close>

lemma seguridad_prefix:
  "sublist ''SAFETY'' (''SEGURIDAD: '' @ cat) \<longleftrightarrow> sublist ''SAFETY'' cat"
  "sublist ''RECITATION'' (''SEGURIDAD: '' @ cat) \<longleftrightarrow> sublist ''RECITATION'' cat"
  by (simp_all add: sublist_Cons_right prefix_Cons)

text \<open>
  Lines 78-82, for a candidate without a \<^verbatim>\<open>finish_reason\<close> attribute: the first
  blocked rating gives the reason, and the reply is the template around it.
\<close>

lemma blocked_rating_reply:
  assumes "ensure_session env (user_id (effective_user update)) st = Inr st1"
    and "user_chats st1 (user_id (effective_user update)) = Some h"
    and "send_message env (sessions st1 h) (message_text update) = (Inr response, s')"
    and "response_text response = Inr []"
    and "candidates response = c # cs"
    and "finish_reason_attr c = NoAttribute"
    and "safety_ratings c = Some ratings"
    and "find blocked ratings = Some r"
    and "\<not> sublist ''RECITATION'' (category r)" and "\<not> sublist ''SAFETY'' (category r)"
  shows "outbox (snd (handle_message env update st))
           = outbox st @ [(user_id (effective_user update), msg_other (''SEGURIDAD: '' @ category r))]"
proof -
  have fr: "find_finish_reason response = Inr (Some (''SEGURIDAD: '' @ category r))"
    using assms(5-8) by (simp add: find_finish_reason_def)
  show ?thesis
    using handle_message_empty_text(1) [OF assms(1-4) fr] assms(9,10)
    by (simp add: empty_text_reply_def seguridad_prefix del: append.simps)
qed




section \<open>The start command\<close>

text \<open>
  C8, as the claim states it, fails in \<^verbatim>\<open>api/webhook.py\<close>: the greeting there is
  built from the user's first name, so two users are greeted with different texts.
\<close>

theorem webhook_greeting_depends_on_first_name:
  "outbox (snd (start demo_env (start_update demo_user) empty_registry)) = [(7, greeting ''Ana'')]
   \<and> outbox (snd (start demo_env (start_update other_user) empty_registry)) = [(8, greeting ''Bob'')]
   \<and> greeting ''Ana'' \<noteq> greeting ''Bob''"
  by (simp add: demo_defs start_def ensure_session_def reply_text_def greeting_def)

text \<open>
  C8, as the code has it, where the user has an entry or \<^verbatim>\<open>start_chat\<close> returns a
  session. For a \<^verbatim>\<open>/start\<close> that arrives as a new message, \<^verbatim>\<open>start\<close> returns, the
  user has an entry afterwards, and exactly one greeting was sent: in
  \<^verbatim>\<open>02_main.py\<close> one fixed text for every user, in \<^verbatim>\<open>api/webhook.py\<close> a fixed
  template around the user's first name. For a \<^verbatim>\<open>/start\<close> that arrives as an edited
  message, the user has an entry afterwards as well, but the reply line raises and no
  greeting is sent.
\<close>

theorem start_ensures_session_and_greets:
  assumes "user_chats st (user_id (effective_user update)) = None \<longrightarrow> start_chat env = Inr s0"
  shows "fst (start env update st) = Returned
       \<and> user_chats (snd (start env update st)) (user_id (effective_user update)) \<noteq> None
       \<and> outbox (snd (start env update st))
           = outbox st @ [(user_id (effective_user update),
                           greeting (first_name (effective_user update)))]
       \<and> fst (main_start env update st) = Returned
       \<and> user_chats (snd (main_start env update st)) (user_id (effective_user update)) \<noteq> None
       \<and> outbox (snd (main_start env update st))
           = outbox st @ [(user_id (effective_user update), main_greeting)]
       \<and> fst (start_without_message env update st)
           = Raised (none_has_no_attribute ''reply_text'')
       \<and> user_chats (snd (start_without_message env update st))
           (user_id (effective_user update)) \<noteq> None
       \<and> outbox (snd (start_without_message env update st)) = outbox st"
  using assms
  by (cases "user_chats st (user_id (effective_user update))")
     (auto simp: start_def main_start_def start_without_message_def ensure_session_def
        reply_text_def)

theorem start_ensures_session_and_greets_witness:
  "user_chats empty_registry (user_id (effective_user (start_update demo_user))) = None
   \<and> start_chat demo_env = Inr []
   \<and> fst (start demo_env (start_update demo_user) empty_registry) = Returned
   \<and> user_chats (snd (start demo_env (start_update demo_user) empty_registry)) 7 \<noteq> None
   \<and> outbox (snd (start demo_env (start_update demo_user) empty_registry))
       = [(7, greeting ''Ana'')]
   \<and> outbox (snd (main_start demo_env (start_update demo_user) empty_registry))
       = [(7, main_greeting)]
   \<and> outbox (snd (main_start demo_env (start_update other_user) empty_registry))
       = [(8, main_greeting)]
   \<and> user_chats (snd (start_without_message demo_env (start_update demo_user) empty_registry)) 7
       \<noteq> None
   \<and> outbox (snd (start_without_message demo_env (start_update demo_user) empty_registry)) = []"
  using start_ensures_session_and_greets [where st = empty_registry
      and update = "start_update demo_user" and env = demo_env and ?s0.0 = "[]"]
    start_ensures_session_and_greets [where st = empty_registry
      and update = "start_update other_user" and env = demo_env and ?s0.0 = "[]"]
  by (simp add: demo_defs)

section \<open>The registry across invocations of handler\<close>






section \<open>Session objects and aliasing\<close>

lemma registry_ok_initial: "registry_ok (initial_state d)"
  by (simp add: registry_ok_def initial_state_def)

lemma ensure_session_ok:
  assumes "registry_ok st" and "ensure_session env uid st = Inr st1"
  shows "registry_ok st1"
proof (cases "user_chats st uid")
  case None
  then obtain s where st1: "st1 = st\<lparr>user_chats := (user_chats st)(uid \<mapsto> next_handle st),
      sessions := (sessions st)(next_handle st := s), next_handle := Suc (next_handle st)\<rparr>"
    using assms(2) by (auto simp: ensure_session_def split: sum.splits)
  have lt: "\<And>u h. user_chats st u = Some h \<Longrightarrow> h < next_handle st"
    and inj: "\<And>u v h. user_chats st u = Some h \<Longrightarrow> user_chats st v = Some h \<Longrightarrow> u = v"
    using assms(1) by (auto simp: registry_ok_def)
  show ?thesis
    unfolding registry_ok_def st1
    using lt inj by (auto simp: less_Suc_eq split: if_splits)
next
  case (Some h)
  then show ?thesis
    using assms by (simp add: ensure_session_def)
qed

lemma ensure_session_sessions:
  assumes "registry_ok st" and "ensure_session env uid st = Inr st1"
    and "user_chats st v = Some hv"
  shows "sessions st1 hv = sessions st hv"
proof -
  have "hv < next_handle st"
    using assms(1,3) by (auto simp: registry_ok_def)
  then show ?thesis
    using assms(2) by (auto simp: ensure_session_def split: option.splits sum.splits)
qed

lemma try_block_sessions:
  "sessions (snd (try_block env update h st)) k = (if k = h then snd (send_message env (sessions st h) (message_text update)) else sessions st k)"
  "sessions (snd (main_try_block env update h st)) k = (if k = h then snd (send_message env (sessions st h) (message_text update)) else sessions st k)"
  by (auto simp: try_block_def main_try_block_def reply_response_text_def reply_text_def Let_def
        split: prod.splits sum.splits delivery.splits)

lemma try_block_ok:
  "registry_ok (snd (try_block env update h st)) = registry_ok st"
  "registry_ok (snd (main_try_block env update h st)) = registry_ok st"
  by (simp_all add: registry_ok_def try_block_registry main_try_block_registry)

lemma reply_text_ok: "registry_ok (reply_text update t st) = registry_ok st"
  by (simp add: registry_ok_def reply_text_fields)

lemma handlers_keep_registry_ok:
  assumes "registry_ok st"
  shows "registry_ok (snd (start env update st))"
    and "registry_ok (snd (handle_message env update st))"
    and "registry_ok (snd (main_start env update st))"
    and "registry_ok (snd (main_handle_message env update st))"
    and "registry_ok (snd (start_without_message env update st))"
    and "registry_ok (snd (handle_message_without_message env update st))"
proof -
  let ?uid = "user_id (effective_user update)"
  show "registry_ok (snd (start_without_message env update st))"
    using assms ensure_session_ok [OF assms, of env ?uid]
    by (auto simp: start_without_message_def split: sum.splits)
  show "registry_ok (snd (handle_message_without_message env update st))"
    using assms by (simp add: handle_message_without_message_def)
  show "registry_ok (snd (start env update st))"
    using assms ensure_session_ok [OF assms, of env ?uid]
    by (auto simp: start_def reply_text_ok split: sum.splits)
  show "registry_ok (snd (main_start env update st))"
    using assms ensure_session_ok [OF assms, of env ?uid]
    by (auto simp: main_start_def reply_text_ok split: sum.splits)
  show "registry_ok (snd (handle_message env update st))"
  proof (cases "ensure_session env ?uid st")
    case (Inl e)
    then show ?thesis using assms by (simp add: handle_message_def)
  next
    case (Inr st1)
    then have ok1: "registry_ok st1" using assms ensure_session_ok by blast
    show ?thesis
    proof (cases "user_chats st1 ?uid")
      case None
      with Inr ok1 show ?thesis by (simp add: handle_message_def)
    next
      case (Some h)
      obtain r st2 where tb: "try_block env update h st1 = (r, st2)"
        by (cases "try_block env update h st1")
      have "registry_ok st2"
        using try_block_ok(1) [of env update h st1] tb ok1 by simp
      with Inr Some tb show ?thesis
        by (cases r) (simp_all add: handle_message_def reply_text_ok)
    qed
  qed
  show "registry_ok (snd (main_handle_message env update st))"
  proof (cases "ensure_session env ?uid st")
    case (Inl e)
    then show ?thesis using assms by (simp add: main_handle_message_def)
  next
    case (Inr st1)
    then have ok1: "registry_ok st1" using assms ensure_session_ok by blast
    show ?thesis
    proof (cases "user_chats st1 ?uid")
      case None
      with Inr ok1 show ?thesis by (simp add: main_handle_message_def)
    next
      case (Some h)
      obtain r st2 where tb: "main_try_block env update h st1 = (r, st2)"
        by (cases "main_try_block env update h st1")
      have "registry_ok st2"
        using try_block_ok(2) [of env update h st1] tb ok1 by simp
      with Inr Some tb show ?thesis
        by (cases r) (simp_all add: main_handle_message_def reply_text_ok)
    qed
  qed
qed

text \<open>On a well-formed registry the session object of another user is not touched.\<close>

lemma other_users_session_untouched:
  assumes "registry_ok st" and "v \<noteq> user_id (effective_user update)"
    and "user_chats st v = Some hv"
  shows "sessions (snd (start env update st)) hv = sessions st hv"
    and "sessions (snd (handle_message env update st)) hv = sessions st hv"
    and "sessions (snd (main_start env update st)) hv = sessions st hv"
    and "sessions (snd (main_handle_message env update st)) hv = sessions st hv"
proof -
  let ?uid = "user_id (effective_user update)"
  have es: "sessions st1 hv = sessions st hv" if "ensure_session env ?uid st = Inr st1" for st1
    using ensure_session_sessions [OF assms(1) that assms(3)] .
  have ne: "h \<noteq> hv" if "ensure_session env ?uid st = Inr st1" "user_chats st1 ?uid = Some h"
    for st1 h
  proof
    assume "h = hv"
    moreover have "registry_ok st1"
      using ensure_session_ok [OF assms(1) that(1)] .
    moreover have "user_chats st1 v = Some hv"
      using ensure_session_keeps [OF that(1) assms(3)] .
    ultimately have "?uid = v"
      using that(2) unfolding registry_ok_def by blast
    then show False using assms(2) by simp
  qed
  show "sessions (snd (start env update st)) hv = sessions st hv"
    using es by (auto simp: start_def reply_text_fields split: sum.splits)
  show "sessions (snd (main_start env update st)) hv = sessions st hv"
    using es by (auto simp: main_start_def reply_text_fields split: sum.splits)
  show "sessions (snd (handle_message env update st)) hv = sessions st hv"
  proof (cases "ensure_session env ?uid st")
    case (Inl e)
    then show ?thesis by (simp add: handle_message_def)
  next
    case (Inr st1)
    show ?thesis
    proof (cases "user_chats st1 ?uid")
      case None
      with Inr es show ?thesis by (simp add: handle_message_def)
    next
      case (Some h)
      obtain r st2 where tb: "try_block env update h st1 = (r, st2)"
        by (cases "try_block env update h st1")
      have "sessions st2 hv = sessions st1 hv"
        using try_block_sessions(1) [of env update h st1 hv] tb ne [OF Inr Some] by auto
      with Inr Some tb es show ?thesis
        by (cases r) (simp_all add: handle_message_def reply_text_fields)
    qed
  qed
  show "sessions (snd (main_handle_message env update st)) hv = sessions st hv"
  proof (cases "ensure_session env ?uid st")
    case (Inl e)
    then show ?thesis by (simp add: main_handle_message_def)
  next
    case (Inr st1)
    show ?thesis
    proof (cases "user_chats st1 ?uid")
      case None
      with Inr es show ?thesis by (simp add: main_handle_message_def)
    next
      case (Some h)
      obtain r st2 where tb: "main_try_block env update h st1 = (r, st2)"
        by (cases "main_try_block env update h st1")
      have "sessions st2 hv = sessions st1 hv"
        using try_block_sessions(2) [of env update h st1 hv] tb ne [OF Inr Some] by auto
      with Inr Some tb es show ?thesis
        by (cases r) (simp_all add: main_handle_message_def reply_text_fields)
    qed
  qed
qed

lemma run_polling_ok: "registry_ok st \<Longrightarrow> registry_ok (run_polling env us st)"
proof (induction us arbitrary: st)
  case Nil
  then show ?case by simp
next
  case (Cons u us)
  have "registry_ok (main_process_update env u st)"
    using handlers_keep_registry_ok(3-6) [OF Cons.prems]
    by (simp add: main_process_update_def Cons.prems split: inbound.splits update_kind.splits)
  then show ?case
    using Cons.IH by simp
qed

end
